theory Spec2Isabelle
  imports Main
begin

section \<open>Multi-GPU trainers: \<^verbatim>\<open>tensorpack/train/multigpu.py\<close>\<close>

subsection \<open>Errors\<close>

text \<open>
  The module reports every configuration problem with an \<^verbatim>\<open>assert\<close> statement, so a
  configuration error is Python's \<^verbatim>\<open>AssertionError\<close>. Calling a method on \<^verbatim>\<open>None\<close> raises
  \<^verbatim>\<open>AttributeError\<close>. The collaborators that are called but not defined in the module (the
  input source and the graph builders) may raise anything; that is \<open>CollaboratorError\<close>.
\<close>

datatype error = AssertionError | AttributeError | CollaboratorError string

subsection \<open>Values handled by the module\<close>

text \<open>
  Dataflows, models, input descriptions and graph operations are opaque to the module:
  it stores them and passes them on. They are identified by a name.
\<close>

datatype DataFlow = DataFlow string
datatype ModelDesc = ModelDesc string
datatype InputDesc = InputDesc string
datatype Op = Op string

text \<open>
  Input sources. The module constructs \<^verbatim>\<open>QueueInput(dataflow)\<close> and
  \<^verbatim>\<open>StagingInputWrapper(data, devices)\<close> and tests for \<^verbatim>\<open>StagingInputWrapper\<close> and
  \<^verbatim>\<open>DummyConstantInput\<close> with \<^verbatim>\<open>isinstance\<close>. Of the other input sources, \<open>FeedInput\<close> is one
  that feeds placeholders at every step, and \<open>OtherInput\<close> is any other source that
  produces its tensors in the graph.
\<close>

datatype InputSource =
    QueueInput DataFlow
  | StagingInputWrapper InputSource "string list"
  | DummyConstantInput string
  | FeedInput string
  | OtherInput string

text \<open>\<^verbatim>\<open>isinstance(x, (StagingInputWrapper, DummyConstantInput))\<close>\<close>

fun isinstance_Staging_or_Dummy :: "InputSource \<Rightarrow> bool" where
  "isinstance_Staging_or_Dummy (StagingInputWrapper _ _) = True"
| "isinstance_Staging_or_Dummy (DummyConstantInput _) = True"
| "isinstance_Staging_or_Dummy _ = False"

text \<open>
  \<^verbatim>\<open>isinstance(x, FeedfreeInput)\<close>: every input source of the model except \<open>FeedInput\<close> produces
  its tensors without feeding.
\<close>

fun isinstance_FeedfreeInput :: "InputSource \<Rightarrow> bool" where
  "isinstance_FeedfreeInput (FeedInput _) = False"
| "isinstance_FeedfreeInput _ = True"

text \<open>
  Modelled from the spec: the constructor of \<^verbatim>\<open>StagingInputWrapper\<close>, defined in
  \<^verbatim>\<open>graph_builder/input_source.py\<close>. It is the spec's input-side device-staging wrapper
  around an input source: it stages on the devices the tensors that the wrapped source
  produces, so it asserts that the wrapped source is a \<^verbatim>\<open>FeedfreeInput\<close>. On any other
  source the constructor raises an assertion error and no wrapper exists.
\<close>

definition StagingInputWrapper_init :: "InputSource \<Rightarrow> string list \<Rightarrow> error + InputSource" where
  "StagingInputWrapper_init inp devices =
     (if \<not> isinstance_FeedfreeInput inp then Inl AssertionError
      else Inr (StagingInputWrapper inp devices))"

text \<open>
  Callbacks. \<^verbatim>\<open>RunOp(lambda: op, run_before=b, run_as_trigger=t, verbose=v)\<close> is
  \<open>RunOp op b t v\<close>; the callbacks that an input source returns from \<^verbatim>\<open>setup\<close>, and those
  already in the list, are \<open>OtherCallback\<close>.
\<close>

datatype Callback =
    RunOp (op_of: Op) (run_before: bool) (run_as_trigger: bool) (verbose: bool)
  | OtherCallback string

text \<open>\<^verbatim>\<open>TrainConfig\<close>: the attributes the module reads and writes.\<close>

record TrainConfig =
  data :: "InputSource option"
  dataflow :: "DataFlow option"
  model :: "ModelDesc option"
  tower :: "int list"
  callbacks :: "Callback list"

subsection \<open>Formatting a tower index\<close>

text \<open>\<^verbatim>\<open>'{}'.format(k)\<close> for an integer \<open>k\<close>: its decimal digits, with a minus sign.\<close>

definition digit_char :: "nat \<Rightarrow> char" where
  "digit_char d = ''0123456789'' ! (d mod 10)"

function str_nat :: "nat \<Rightarrow> string" where
  "str_nat n = (if n < 10 then [digit_char n] else str_nat (n div 10) @ [digit_char (n mod 10)])"
  by pat_completeness auto
termination
  by (relation "measure (\<lambda>n. n)") auto

declare str_nat.simps [simp del]

definition str_int :: "int \<Rightarrow> string" where
  "str_int k = (if k < 0 then CHR ''-'' # str_nat (nat (- k)) else str_nat (nat k))"

text \<open>\<^verbatim>\<open>['/gpu:{}'.format(k) for k in config.tower]\<close>\<close>

definition gpu_devices :: "int list \<Rightarrow> string list" where
  "gpu_devices ks = map (\<lambda>k. ''/gpu:'' @ str_int k) ks"

subsection \<open>\<^verbatim>\<open>apply_prefetch_policy\<close>\<close>

text \<open>
  An argument that has a default value is an \<open>option\<close>: \<open>None\<close> when the caller leaves it
  out, and then the default is taken.
\<close>

definition arg_or :: "'a \<Rightarrow> 'a option \<Rightarrow> 'a" where
  "arg_or dflt a = (case a of None \<Rightarrow> dflt | Some v \<Rightarrow> v)"

text \<open>
  The function mutates the configuration object and may raise after it has done so.
  The model returns the error, if any, together with the configuration as the call
  leaves it. \<open>is_gpu_available\<close> is the answer of \<^verbatim>\<open>tf.test.is_gpu_available()\<close>.

  \<open>normalize\<close> is the first \<^verbatim>\<open>if\<close> statement of the function: a dataflow without an input
  source is wrapped in a \<^verbatim>\<open>QueueInput\<close>.

  After the first assertion \<^verbatim>\<open>config.data\<close> or \<^verbatim>\<open>config.dataflow\<close> is set, so after the first
  \<^verbatim>\<open>if\<close> statement \<^verbatim>\<open>config.data\<close> is set. The branch for \<open>None\<close> in the second \<^verbatim>\<open>if\<close> statement
  is there for totality only and is never taken: by lemma \<open>apply_prefetch_policy_error\<close>
  below, the function raises nothing but assertion errors.

  When the constructor of the staging wrapper raises, the assignment to \<^verbatim>\<open>config.data\<close> does
  not happen: the configuration keeps the source it had after the first \<^verbatim>\<open>if\<close> statement.
\<close>

definition normalize :: "TrainConfig \<Rightarrow> TrainConfig" where
  "normalize config =
     (case dataflow config of
        Some df \<Rightarrow>
          if data config = None
          then config\<lparr>data := Some (QueueInput df), dataflow := None\<rparr>
          else config
      | None \<Rightarrow> config)"

definition apply_prefetch_policy ::
  "bool \<Rightarrow> TrainConfig \<Rightarrow> bool option \<Rightarrow> error option \<times> TrainConfig" where
  "apply_prefetch_policy is_gpu_available config gpu_prefetch_arg =
     (let gpu_prefetch = arg_or True gpu_prefetch_arg in
      if \<not> ((data config \<noteq> None \<or> dataflow config \<noteq> None) \<and> model config \<noteq> None)
      then (Some AssertionError, config)
      else
        let config1 = normalize config in
        if length (tower config1) > 1 \<and> gpu_prefetch then
          if \<not> is_gpu_available then (Some AssertionError, config1)
          else
            (case data config1 of
               None \<Rightarrow> (Some AttributeError, config1)
             | Some d \<Rightarrow>
                 if \<not> isinstance_Staging_or_Dummy d
                 then (let devices = gpu_devices (tower config1)
                       in case StagingInputWrapper_init d devices of
                            Inl e \<Rightarrow> (Some e, config1)
                          | Inr wrapped \<Rightarrow> (None, config1\<lparr>data := Some wrapped\<rparr>))
                 else (None, config1))
        else (None, config1))"

subsection \<open>The graph\<close>

text \<open>
  Building towers is an effect on the graph under construction. The graph is the list of
  the tower replicas built so far, each with its index, its device and whether it reuses
  the learnable state of tower 0. Whatever builds towers takes the graph and returns it
  with the replicas it has built.
\<close>

record Replica =
  replica_index :: nat
  replica_device :: string
  reuses_tower0 :: bool

type_synonym Graph = "Replica list"

subsection \<open>The trainers\<close>

text \<open>
  The attributes of a trainer: \<^verbatim>\<open>self.config\<close>, \<^verbatim>\<open>self.model\<close> and \<^verbatim>\<open>self.train_op\<close> of the base
  class \<^verbatim>\<open>Trainer\<close>, and \<^verbatim>\<open>self._input_source\<close>, \<^verbatim>\<open>self._ps_device\<close> and \<^verbatim>\<open>self._scale_gradient\<close> of
  the classes of the module. The trainer holds the caller's configuration object itself,
  so the \<open>config\<close> field is that object's state.
\<close>

record Trainer =
  config :: TrainConfig
  self_model :: "ModelDesc option"
  train_op :: "Op option"

record InputTrainer = Trainer +
  input_source :: "InputSource option"

record ParameterServerTrainer = InputTrainer +
  ps_device :: string

record AsyncTrainer = InputTrainer +
  scale_gradient :: bool

subsection \<open>\<^verbatim>\<open>_setup\<close>\<close>

text \<open>
  The collaborators of \<^verbatim>\<open>_setup\<close> are defined elsewhere and are parameters here:
  \<^item> \<open>get_inputs_desc\<close>: \<^verbatim>\<open>model.get_inputs_desc()\<close>;
  \<^item> \<open>input_setup\<close>: \<^verbatim>\<open>input_source.setup(inputs_desc)\<close>, the callbacks it returns;
  \<^item> \<open>ps_build\<close>: \<^verbatim>\<open>SyncMultiGPUParameterServerBuilder(towers, ps_device).build(input, get_cost, get_optimizer)\<close>;
  \<^item> \<open>replicated_build\<close>: \<^verbatim>\<open>SyncMultiGPUReplicatedBuilder(towers).build(...)\<close>, a pair of operations;
  \<^item> \<open>async_build\<close>: \<^verbatim>\<open>AsyncMultiGPUBuilder(towers, scale_gradient).build(...)\<close>.
  \<^verbatim>\<open>get_cost\<close> and \<^verbatim>\<open>get_optimizer\<close> are closures over the trainer's model, so the builders
  take the model. A builder builds the towers: it takes the graph and returns it with
  what it has built, also when it raises halfway. Each collaborator may raise.
\<close>

record Collaborators =
  get_inputs_desc :: "ModelDesc \<Rightarrow> InputDesc list"
  input_setup :: "InputSource \<Rightarrow> InputDesc list \<Rightarrow> error + Callback list"
  ps_build :: "int list \<Rightarrow> string \<Rightarrow> InputSource \<Rightarrow> ModelDesc \<Rightarrow> Graph \<Rightarrow> (error + Op) \<times> Graph"
  replicated_build :: "int list \<Rightarrow> InputSource \<Rightarrow> ModelDesc \<Rightarrow> Graph \<Rightarrow> (error + Op \<times> Op) \<times> Graph"
  async_build :: "int list \<Rightarrow> bool \<Rightarrow> InputSource \<Rightarrow> ModelDesc \<Rightarrow> Graph \<Rightarrow> (error + Op) \<times> Graph"

text \<open>
  \<^verbatim>\<open>callbacks = self._input_source.setup(self.model.get_inputs_desc())\<close>: the attribute
  \<^verbatim>\<open>setup\<close> is looked up first, then the argument is evaluated.
\<close>

definition setup_input ::
  "Collaborators \<Rightarrow> 'a InputTrainer_scheme \<Rightarrow> error + (InputSource \<times> ModelDesc \<times> Callback list)" where
  "setup_input env self =
     (case input_source self of
        None \<Rightarrow> Inl AttributeError
      | Some inp \<Rightarrow>
          (case self_model self of
             None \<Rightarrow> Inl AttributeError
           | Some m \<Rightarrow>
               (case input_setup env inp (get_inputs_desc env m) of
                  Inl e \<Rightarrow> Inl e
                | Inr cbs \<Rightarrow> Inr (inp, m, cbs))))"

text \<open>\<^verbatim>\<open>self.config.callbacks.extend(cbs)\<close>\<close>

definition extend_callbacks :: "Callback list \<Rightarrow> 'a Trainer_scheme \<Rightarrow> 'a Trainer_scheme" where
  "extend_callbacks cbs self =
     self\<lparr>config := (config self)\<lparr>callbacks := callbacks (config self) @ cbs\<rparr>\<rparr>"

text \<open>
  \<^verbatim>\<open>_setup\<close> returns the trainer as it leaves it, or the error, and the graph. When it
  raises, the trainer and its configuration are as before: the assignment of \<^verbatim>\<open>train_op\<close>
  and the extension of the callback list come after the last call that can raise.
\<close>

definition SyncMultiGPUTrainerParameterServer_setup ::
  "Collaborators \<Rightarrow> ParameterServerTrainer \<Rightarrow> Graph \<Rightarrow> (error + ParameterServerTrainer) \<times> Graph" where
  "SyncMultiGPUTrainerParameterServer_setup env self graph =
     (case setup_input env self of
        Inl e \<Rightarrow> (Inl e, graph)
      | Inr (inp, m, cbs) \<Rightarrow>
          (case ps_build env (tower (config self)) (ps_device self) inp m graph of
             (Inl e, graph') \<Rightarrow> (Inl e, graph')
           | (Inr opr, graph') \<Rightarrow>
               (Inr (extend_callbacks cbs (self\<lparr>train_op := Some opr\<rparr>)), graph')))"

definition SyncMultiGPUTrainerReplicated_setup ::
  "Collaborators \<Rightarrow> InputTrainer \<Rightarrow> Graph \<Rightarrow> (error + InputTrainer) \<times> Graph" where
  "SyncMultiGPUTrainerReplicated_setup env self graph =
     (case setup_input env self of
        Inl e \<Rightarrow> (Inl e, graph)
      | Inr (inp, m, cbs) \<Rightarrow>
          (case replicated_build env (tower (config self)) inp m graph of
             (Inl e, graph') \<Rightarrow> (Inl e, graph')
           | (Inr (opr, post_init_op), graph') \<Rightarrow>
               (let cb = RunOp post_init_op True True True
                in (Inr (extend_callbacks (cbs @ [cb]) (self\<lparr>train_op := Some opr\<rparr>)), graph'))))"

definition AsyncMultiGPUTrainer_setup ::
  "Collaborators \<Rightarrow> AsyncTrainer \<Rightarrow> Graph \<Rightarrow> (error + AsyncTrainer) \<times> Graph" where
  "AsyncMultiGPUTrainer_setup env self graph =
     (case setup_input env self of
        Inl e \<Rightarrow> (Inl e, graph)
      | Inr (inp, m, cbs) \<Rightarrow>
          (case async_build env (tower (config self)) (scale_gradient self) inp m graph of
             (Inl e, graph') \<Rightarrow> (Inl e, graph')
           | (Inr opr, graph') \<Rightarrow>
               (Inr (extend_callbacks cbs (self\<lparr>train_op := Some opr\<rparr>)), graph')))"

subsection \<open>The constructors\<close>

text \<open>
  Modelled from the spec: the constructor of the base class \<^verbatim>\<open>Trainer\<close>, defined in
  \<^verbatim>\<open>train/base.py\<close>, which every constructor of the module calls last, as
  \<^verbatim>\<open>super(...).__init__(config)\<close>. By the spec the construction of a trainer is its one-time
  setup phase, in which all errors surface: the base constructor keeps the configuration
  and its model as \<^verbatim>\<open>self.config\<close> and \<^verbatim>\<open>self.model\<close> and then runs \<^verbatim>\<open>self._setup()\<close>, the method
  of the trainer's own class. So a constructor that gets as far as the base constructor
  builds the towers and registers the callbacks, and a trainer that it returns has its
  training operation.

  \<open>Trainer_init\<close> takes the \<^verbatim>\<open>_setup\<close> of the class, \<open>class_setup\<close>, and the trainer with the attributes set
  so far. It returns the trainer or the error, the configuration object as the call leaves
  it (the caller still holds it when the constructor raises) and the graph.
\<close>

definition Trainer_init ::
  "('a Trainer_scheme \<Rightarrow> Graph \<Rightarrow> (error + 'a Trainer_scheme) \<times> Graph)
     \<Rightarrow> TrainConfig \<Rightarrow> 'a Trainer_scheme \<Rightarrow> Graph
     \<Rightarrow> (error + 'a Trainer_scheme) \<times> TrainConfig \<times> Graph" where
  "Trainer_init class_setup cfg self graph =
     (case class_setup (self\<lparr>config := cfg, self_model := model cfg\<rparr>) graph of
        (Inl e, graph') \<Rightarrow> (Inl e, cfg, graph')
      | (Inr self', graph') \<Rightarrow> (Inr self', config self', graph'))"

text \<open>
  The constructors of the module. Each applies the prefetch policy to the configuration,
  keeps \<^verbatim>\<open>config.data\<close> as its input source and calls the base constructor; the
  parameter-server trainer asserts its \<^verbatim>\<open>ps_device\<close> in between. Before the base constructor
  has run the trainer has no training operation.
\<close>

definition SyncMultiGPUTrainerParameterServer_init ::
  "Collaborators \<Rightarrow> bool \<Rightarrow> TrainConfig \<Rightarrow> string option \<Rightarrow> bool option \<Rightarrow> Graph
     \<Rightarrow> (error + ParameterServerTrainer) \<times> TrainConfig \<times> Graph" where
  "SyncMultiGPUTrainerParameterServer_init env is_gpu_available cfg ps_device_arg gpu_prefetch_arg graph =
     (let ps_dev = arg_or ''gpu'' ps_device_arg;
          gpu_prefetch = arg_or True gpu_prefetch_arg
      in case apply_prefetch_policy is_gpu_available cfg (Some gpu_prefetch) of
           (Some e, cfg') \<Rightarrow> (Inl e, cfg', graph)
         | (None, cfg') \<Rightarrow>
             if ps_dev \<notin> set [''gpu'', ''cpu''] then (Inl AssertionError, cfg', graph)
             else Trainer_init (SyncMultiGPUTrainerParameterServer_setup env) cfg'
                    \<lparr>config = cfg', self_model = None, train_op = None,
                     input_source = data cfg', ps_device = ps_dev\<rparr> graph)"

text \<open>\<^verbatim>\<open>SyncMultiGPUTrainer(config)\<close> passes \<^verbatim>\<open>ps_device='gpu'\<close> and nothing else.\<close>

definition SyncMultiGPUTrainer ::
  "Collaborators \<Rightarrow> bool \<Rightarrow> TrainConfig \<Rightarrow> Graph
     \<Rightarrow> (error + ParameterServerTrainer) \<times> TrainConfig \<times> Graph" where
  "SyncMultiGPUTrainer env is_gpu_available cfg graph =
     SyncMultiGPUTrainerParameterServer_init env is_gpu_available cfg (Some ''gpu'') None graph"

definition SyncMultiGPUTrainerReplicated_init ::
  "Collaborators \<Rightarrow> bool \<Rightarrow> TrainConfig \<Rightarrow> bool option \<Rightarrow> Graph
     \<Rightarrow> (error + InputTrainer) \<times> TrainConfig \<times> Graph" where
  "SyncMultiGPUTrainerReplicated_init env is_gpu_available cfg gpu_prefetch_arg graph =
     (let gpu_prefetch = arg_or True gpu_prefetch_arg
      in case apply_prefetch_policy is_gpu_available cfg (Some gpu_prefetch) of
           (Some e, cfg') \<Rightarrow> (Inl e, cfg', graph)
         | (None, cfg') \<Rightarrow>
             Trainer_init (SyncMultiGPUTrainerReplicated_setup env) cfg'
               \<lparr>config = cfg', self_model = None, train_op = None,
                input_source = data cfg'\<rparr> graph)"

text \<open>
  The asynchronous trainer has no \<^verbatim>\<open>gpu_prefetch\<close> parameter: it calls
  \<^verbatim>\<open>apply_prefetch_policy(config)\<close>, which takes that function's default.
\<close>

definition AsyncMultiGPUTrainer_init ::
  "Collaborators \<Rightarrow> bool \<Rightarrow> TrainConfig \<Rightarrow> bool option \<Rightarrow> Graph
     \<Rightarrow> (error + AsyncTrainer) \<times> TrainConfig \<times> Graph" where
  "AsyncMultiGPUTrainer_init env is_gpu_available cfg scale_gradient_arg graph =
     (let scale = arg_or True scale_gradient_arg
      in case apply_prefetch_policy is_gpu_available cfg None of
           (Some e, cfg') \<Rightarrow> (Inl e, cfg', graph)
         | (None, cfg') \<Rightarrow>
             Trainer_init (AsyncMultiGPUTrainer_setup env) cfg'
               \<lparr>config = cfg', self_model = None, train_op = None,
                input_source = data cfg', scale_gradient = scale\<rparr> graph)"

subsection \<open>Building on towers\<close>

text \<open>
  Modelled from the spec: \<^verbatim>\<open>DataParallelBuilder.build_on_towers\<close>, defined in
  \<^verbatim>\<open>graph_builder/training.py\<close>. The spec (TowerComputation) gives its contract:
  \<^item> it takes an ordered list of towers, a computation function, an optional explicit
    device list and the policy \<^verbatim>\<open>use_vs\<close> for the learnable state of the later towers;
  \<^item> when an explicit device list is supplied and its length is not the number of
    towers, it fails with a configuration error before any graph construction;
  \<^item> tower 0 creates the learnable state under its device; a tower \<open>i > 0\<close> is bound to
    its device and reuses the state of tower 0 unless the policy says otherwise;
  \<^item> the function is invoked once per tower, in order, and its result is captured; a
    failing invocation aborts the construction.
  It adds its replicas to the graph. Without an explicit device list the towers get the
  devices \<^verbatim>\<open>/gpu:k\<close>, as in \<^verbatim>\<open>apply_prefetch_policy\<close>.
\<close>

fun build_replicas ::
  "(Replica \<Rightarrow> error + 'r) \<Rightarrow> Replica list \<Rightarrow> Graph \<Rightarrow> (error + 'r list) \<times> Graph" where
  "build_replicas func [] graph = (Inr [], graph)"
| "build_replicas func (r # rs) graph =
     (case func r of
        Inl e \<Rightarrow> (Inl e, graph @ [r])
      | Inr x \<Rightarrow>
          (case build_replicas func rs (graph @ [r]) of
             (Inl e, graph') \<Rightarrow> (Inl e, graph')
           | (Inr xs, graph') \<Rightarrow> (Inr (x # xs), graph')))"

definition tower_replicas :: "string list \<Rightarrow> bool \<Rightarrow> Replica list" where
  "tower_replicas devs own_state =
     map (\<lambda>(i, dev). \<lparr>replica_index = i, replica_device = dev,
                       reuses_tower0 = (0 < i \<and> \<not> own_state)\<rparr>)
         (enumerate 0 devs)"

definition build_on_towers ::
  "int list \<Rightarrow> (Replica \<Rightarrow> error + 'r) \<Rightarrow> string list option \<Rightarrow> bool option \<Rightarrow> Graph
     \<Rightarrow> (error + 'r list) \<times> Graph" where
  "build_on_towers towers func devices use_vs graph =
     (case devices of
        Some devs \<Rightarrow>
          if length devs \<noteq> length towers then (Inl AssertionError, graph)
          else build_replicas func (tower_replicas devs (arg_or False use_vs)) graph
      | None \<Rightarrow>
          build_replicas func (tower_replicas (gpu_devices towers) (arg_or False use_vs)) graph)"

text \<open>
  \<^verbatim>\<open>MultiGPUTrainerBase.build_on_multi_tower(towers, func, devices=None, use_vs=None)\<close>,
  called on the class (the function takes no \<^verbatim>\<open>self\<close>): it passes its four arguments on.
\<close>

definition build_on_multi_tower ::
  "int list \<Rightarrow> (Replica \<Rightarrow> error + 'r) \<Rightarrow> string list option \<Rightarrow> bool option \<Rightarrow> Graph
     \<Rightarrow> (error + 'r list) \<times> Graph" where
  "build_on_multi_tower towers func devices use_vs graph =
     build_on_towers towers func devices use_vs graph"

subsection \<open>When a registered callback runs\<close>

text \<open>
  Modelled from the spec: the callback class \<^verbatim>\<open>RunOp\<close> (\<^verbatim>\<open>callbacks/graph.py\<close>) and the
  training loop that drives the callbacks (\<^verbatim>\<open>train/base.py\<close>). The spec's lifecycle
  interface says that a hook carries run-phase tags and a verbosity flag. The tags of a
  \<^verbatim>\<open>RunOp\<close> are the keyword arguments the trainer passes: with \<^verbatim>\<open>run_before\<close> the operation
  runs once before the first training step, with \<^verbatim>\<open>run_as_trigger\<close> it runs at every
  trigger of the lifecycle system. A training run of \<open>epochs\<close> epochs of \<open>steps\<close> steps is
  the phase before training, then for each epoch its steps followed by one trigger.
\<close>

datatype Phase = BeforeTrain | RunStep | Trigger

fun runs_in :: "Callback \<Rightarrow> Phase \<Rightarrow> bool" where
  "runs_in (RunOp _ before _ _) BeforeTrain = before"
| "runs_in (RunOp _ _ as_trigger _) Trigger = as_trigger"
| "runs_in (RunOp _ _ _ _) RunStep = False"
| "runs_in (OtherCallback _) _ = False"

definition training_run :: "nat \<Rightarrow> nat \<Rightarrow> Phase list" where
  "training_run epochs steps =
     BeforeTrain # concat (replicate epochs (replicate steps RunStep @ [Trigger]))"

definition op_runs :: "Callback \<Rightarrow> Phase list \<Rightarrow> nat" where
  "op_runs cb phases = length (filter (runs_in cb) phases)"

subsection \<open>Example inputs\<close>

definition example_config :: TrainConfig where
  "example_config =
     \<lparr>data = None, dataflow = Some (DataFlow ''df''), model = Some (ModelDesc ''net''),
      tower = [0, 1], callbacks = [OtherCallback ''user'']\<rparr>"

definition single_tower_config :: TrainConfig where
  "single_tower_config =
     \<lparr>data = Some (FeedInput ''feed''), dataflow = None, model = Some (ModelDesc ''net''),
      tower = [0], callbacks = []\<rparr>"

definition feed_config :: TrainConfig where
  "feed_config =
     \<lparr>data = Some (FeedInput ''feed''), dataflow = None, model = Some (ModelDesc ''net''),
      tower = [0, 1], callbacks = []\<rparr>"

definition both_sources_config :: TrainConfig where
  "both_sources_config =
     \<lparr>data = Some (FeedInput ''feed''), dataflow = Some (DataFlow ''df''),
      model = Some (ModelDesc ''net''), tower = [0], callbacks = []\<rparr>"

definition no_model_config :: TrainConfig where
  "no_model_config =
     \<lparr>data = Some (FeedInput ''feed''), dataflow = None, model = None,
      tower = [0], callbacks = []\<rparr>"

text \<open>
  Collaborators that succeed; each builder adds one replica per tower to the graph.
\<close>

definition example_env :: Collaborators where
  "example_env =
     \<lparr>get_inputs_desc = (\<lambda>m. [InputDesc ''image'', InputDesc ''label'']),
      input_setup = (\<lambda>inp descs. Inr [OtherCallback ''start-queue'']),
      ps_build = (\<lambda>towers dev inp m graph.
         (Inr (Op ''ps-train''), graph @ tower_replicas (gpu_devices towers) False)),
      replicated_build = (\<lambda>towers inp m graph.
         (Inr (Op ''replicated-train'', Op ''sync-copies''),
          graph @ tower_replicas (gpu_devices towers) True)),
      async_build = (\<lambda>towers scale inp m graph.
         (Inr (Op ''async-train''), graph @ tower_replicas (gpu_devices towers) False))\<rparr>"

definition example_source :: InputSource where
  "example_source = StagingInputWrapper (QueueInput (DataFlow ''df'')) [''/gpu:0'', ''/gpu:1'']"

definition example_staged_config :: TrainConfig where
  "example_staged_config =
     \<lparr>data = Some example_source, dataflow = None, model = Some (ModelDesc ''net''),
      tower = [0, 1], callbacks = [OtherCallback ''user'']\<rparr>"

definition example_shared_towers :: Graph where
  "example_shared_towers =
     [\<lparr>replica_index = 0, replica_device = ''/gpu:0'', reuses_tower0 = False\<rparr>,
      \<lparr>replica_index = 1, replica_device = ''/gpu:1'', reuses_tower0 = True\<rparr>]"

definition example_own_towers :: Graph where
  "example_own_towers =
     [\<lparr>replica_index = 0, replica_device = ''/gpu:0'', reuses_tower0 = False\<rparr>,
      \<lparr>replica_index = 1, replica_device = ''/gpu:1'', reuses_tower0 = False\<rparr>]"

text \<open>Trainers as a constructor hands them to \<^verbatim>\<open>_setup\<close>, and as \<^verbatim>\<open>_setup\<close> leaves them.\<close>

definition example_ps_trainer :: ParameterServerTrainer where
  "example_ps_trainer =
     \<lparr>config = example_staged_config, self_model = Some (ModelDesc ''net''), train_op = None,
      input_source = Some example_source, ps_device = ''gpu''\<rparr>"

definition example_ps_after :: ParameterServerTrainer where
  "example_ps_after =
     \<lparr>config = example_staged_config\<lparr>callbacks :=
         [OtherCallback ''user'', OtherCallback ''start-queue'']\<rparr>,
      self_model = Some (ModelDesc ''net''), train_op = Some (Op ''ps-train''),
      input_source = Some example_source, ps_device = ''gpu''\<rparr>"

definition example_replicated_trainer :: InputTrainer where
  "example_replicated_trainer =
     \<lparr>config = example_staged_config, self_model = Some (ModelDesc ''net''), train_op = None,
      input_source = Some example_source\<rparr>"

definition example_replicated_after :: InputTrainer where
  "example_replicated_after =
     \<lparr>config = example_staged_config\<lparr>callbacks :=
         [OtherCallback ''user'', OtherCallback ''start-queue'',
          RunOp (Op ''sync-copies'') True True True]\<rparr>,
      self_model = Some (ModelDesc ''net''), train_op = Some (Op ''replicated-train''),
      input_source = Some example_source\<rparr>"

definition example_async_trainer :: AsyncTrainer where
  "example_async_trainer =
     \<lparr>config = example_staged_config, self_model = Some (ModelDesc ''net''), train_op = None,
      input_source = Some example_source, scale_gradient = True\<rparr>"

definition example_async_after :: AsyncTrainer where
  "example_async_after =
     \<lparr>config = example_staged_config\<lparr>callbacks :=
         [OtherCallback ''user'', OtherCallback ''start-queue'']\<rparr>,
      self_model = Some (ModelDesc ''net''), train_op = Some (Op ''async-train''),
      input_source = Some example_source, scale_gradient = True\<rparr>"

section \<open>Properties\<close>

subsection \<open>Facts about the prefetch policy\<close>

lemma str_int_0: "str_int 0 = ''0''"
  by (simp add: str_int_def str_nat.simps digit_char_def)

lemma str_int_1: "str_int 1 = ''1''"
  by (simp add: str_int_def str_nat.simps digit_char_def)

lemma gpu_devices_01: "gpu_devices [0, 1] = [''/gpu:0'', ''/gpu:1'']"
  by (simp add: gpu_devices_def str_int_0 str_int_1)

lemma normalize_data_set:
  "data cfg \<noteq> None \<or> dataflow cfg \<noteq> None \<Longrightarrow> data (normalize cfg) \<noteq> None"
  by (auto simp: normalize_def split: option.splits)

lemma normalize_fields [simp]:
  "model (normalize cfg) = model cfg"
  "tower (normalize cfg) = tower cfg"
  "callbacks (normalize cfg) = callbacks cfg"
  by (auto simp: normalize_def split: option.splits)

lemma normalize_dataflow:
  "dataflow (normalize cfg) = (if data cfg = None then None else dataflow cfg)"
  by (auto simp: normalize_def split: option.splits)

lemma normalize_idem: "normalize (normalize cfg) = normalize cfg"
  by (auto simp: normalize_def split: option.splits)

lemma apply_prefetch_policy_rejects:
  "model cfg = None \<or> (data cfg = None \<and> dataflow cfg = None)
   \<Longrightarrow> apply_prefetch_policy gpu cfg p = (Some AssertionError, cfg)"
  by (auto simp: apply_prefetch_policy_def)

lemma apply_prefetch_policy_error:
  "fst (apply_prefetch_policy gpu cfg p) = Some e \<Longrightarrow> e = AssertionError"
  by (auto simp: apply_prefetch_policy_def Let_def normalize_data_set StagingInputWrapper_init_def
      split: if_splits option.splits sum.splits)

lemma apply_prefetch_policy_callbacks:
  "callbacks (snd (apply_prefetch_policy gpu cfg p)) = callbacks cfg"
  by (auto simp: apply_prefetch_policy_def Let_def StagingInputWrapper_init_def
      split: if_splits option.splits sum.splits)

lemma apply_prefetch_policy_fields:
  "model (snd (apply_prefetch_policy gpu cfg p)) = model cfg"
  "tower (snd (apply_prefetch_policy gpu cfg p)) = tower cfg"
  by (auto simp: apply_prefetch_policy_def Let_def StagingInputWrapper_init_def
      split: if_splits option.splits sum.splits)

lemma apply_prefetch_policy_default:
  "apply_prefetch_policy gpu cfg None = apply_prefetch_policy gpu cfg (Some True)"
  by (simp add: apply_prefetch_policy_def arg_or_def)

lemma apply_prefetch_policy_result:
  assumes "data cfg \<noteq> None \<or> dataflow cfg \<noteq> None" and "model cfg \<noteq> None"
      and "data (normalize cfg) = Some d"
  shows "apply_prefetch_policy gpu cfg p =
     (if 1 < length (tower cfg) \<and> arg_or True p
      then if gpu
           then if isinstance_Staging_or_Dummy d then (None, normalize cfg)
                else if isinstance_FeedfreeInput d
                then (None, (normalize cfg)\<lparr>data :=
                        Some (StagingInputWrapper d (gpu_devices (tower cfg)))\<rparr>)
                else (Some AssertionError, normalize cfg)
           else (Some AssertionError, normalize cfg)
      else (None, normalize cfg))"
  using assms
  by (auto simp: apply_prefetch_policy_def Let_def StagingInputWrapper_init_def split: option.splits)

lemma apply_prefetch_policy_outcome:
  assumes "data cfg \<noteq> None \<or> dataflow cfg \<noteq> None" and "model cfg \<noteq> None"
      and d: "data (normalize cfg) = Some d"
  shows "(1 < length (tower cfg) \<and> p \<and> \<not> gpu \<longrightarrow>
            fst (apply_prefetch_policy gpu cfg (Some p)) = Some AssertionError
          \<and> data (snd (apply_prefetch_policy gpu cfg (Some p))) = Some d)
       \<and> (1 < length (tower cfg) \<and> p \<and> gpu \<and> isinstance_Staging_or_Dummy d \<longrightarrow>
            data (snd (apply_prefetch_policy gpu cfg (Some p))) = Some d)
       \<and> (1 < length (tower cfg) \<and> p \<and> gpu \<and> \<not> isinstance_Staging_or_Dummy d
            \<and> isinstance_FeedfreeInput d \<longrightarrow>
            data (snd (apply_prefetch_policy gpu cfg (Some p)))
              = Some (StagingInputWrapper d (gpu_devices (tower cfg))))
       \<and> (1 < length (tower cfg) \<and> p \<and> gpu \<and> \<not> isinstance_Staging_or_Dummy d
            \<and> \<not> isinstance_FeedfreeInput d \<longrightarrow>
            fst (apply_prefetch_policy gpu cfg (Some p)) = Some AssertionError
          \<and> data (snd (apply_prefetch_policy gpu cfg (Some p))) = Some d)
       \<and> (length (tower cfg) \<le> 1 \<or> \<not> p \<longrightarrow>
            data (snd (apply_prefetch_policy gpu cfg (Some p))) = Some d)"
  using apply_prefetch_policy_result[OF assms, of gpu "Some p"] d
  by (auto simp: arg_or_def)

lemma example_config_policy:
  "apply_prefetch_policy True example_config (Some True) =
     (None, example_staged_config)"
  by (simp add: apply_prefetch_policy_def example_config_def example_staged_config_def
      example_source_def normalize_def arg_or_def gpu_devices_01 StagingInputWrapper_init_def)

subsection \<open>Facts about setup\<close>

lemma setup_input_Inr:
  "setup_input env self = Inr (inp, m, cbs) \<longleftrightarrow>
     input_source self = Some inp \<and> self_model self = Some m
     \<and> input_setup env inp (get_inputs_desc env m) = Inr cbs"
  by (auto simp: setup_input_def split: option.splits sum.splits)

lemma extend_callbacks_fields [simp]:
  "train_op (extend_callbacks cbs self) = train_op self"
  "config (extend_callbacks cbs self) = (config self)\<lparr>callbacks := callbacks (config self) @ cbs\<rparr>"
  by (simp_all add: extend_callbacks_def)

lemma ps_setup_Inr:
  "SyncMultiGPUTrainerParameterServer_setup env self graph = (Inr self', graph') \<longleftrightarrow>
     (\<exists>inp m cbs opr. setup_input env self = Inr (inp, m, cbs)
        \<and> ps_build env (tower (config self)) (ps_device self) inp m graph = (Inr opr, graph')
        \<and> self' = extend_callbacks cbs (self\<lparr>train_op := Some opr\<rparr>))"
  by (auto simp: SyncMultiGPUTrainerParameterServer_setup_def split: sum.splits prod.splits)

lemma ps_setup_config:
  "SyncMultiGPUTrainerParameterServer_setup env self graph = (Inr self', graph')
   \<Longrightarrow> \<exists>cbs. config self' = (config self)\<lparr>callbacks := cbs\<rparr>"
  by (auto simp: SyncMultiGPUTrainerParameterServer_setup_def split: sum.splits prod.splits)

lemma replicated_setup_config:
  "SyncMultiGPUTrainerReplicated_setup env self graph = (Inr self', graph')
   \<Longrightarrow> \<exists>cbs. config self' = (config self)\<lparr>callbacks := cbs\<rparr>"
  by (auto simp: SyncMultiGPUTrainerReplicated_setup_def Let_def split: sum.splits prod.splits)

lemma async_setup_config:
  "AsyncMultiGPUTrainer_setup env self graph = (Inr self', graph')
   \<Longrightarrow> \<exists>cbs. config self' = (config self)\<lparr>callbacks := cbs\<rparr>"
  by (auto simp: AsyncMultiGPUTrainer_setup_def split: sum.splits prod.splits)

lemma example_towers:
  "tower_replicas [''/gpu:0'', ''/gpu:1''] False = example_shared_towers"
  "tower_replicas [''/gpu:0'', ''/gpu:1''] True = example_own_towers"
  by (simp_all add: tower_replicas_def example_shared_towers_def example_own_towers_def)

lemma example_setup_input:
  "input_source self = Some example_source \<Longrightarrow> self_model self = Some (ModelDesc ''net'') \<Longrightarrow>
   setup_input example_env self =
     Inr (example_source, ModelDesc ''net'', [OtherCallback ''start-queue''])"
  by (simp add: setup_input_def example_env_def)

lemma example_ps_setup:
  "SyncMultiGPUTrainerParameterServer_setup example_env example_ps_trainer [] =
     (Inr example_ps_after, example_shared_towers)"
  by (simp add: SyncMultiGPUTrainerParameterServer_setup_def example_setup_input
        example_ps_trainer_def)
     (simp add: example_env_def example_ps_after_def extend_callbacks_def
        example_staged_config_def gpu_devices_01 example_towers)

lemma example_replicated_setup:
  "SyncMultiGPUTrainerReplicated_setup example_env example_replicated_trainer [] =
     (Inr example_replicated_after, example_own_towers)"
  by (simp add: SyncMultiGPUTrainerReplicated_setup_def example_setup_input
        example_replicated_trainer_def)
     (simp add: example_env_def example_replicated_after_def extend_callbacks_def
        example_staged_config_def gpu_devices_01 example_towers)

lemma example_async_setup:
  "AsyncMultiGPUTrainer_setup example_env example_async_trainer [] =
     (Inr example_async_after, example_shared_towers)"
  by (simp add: AsyncMultiGPUTrainer_setup_def example_setup_input
        example_async_trainer_def)
     (simp add: example_env_def example_async_after_def extend_callbacks_def
        example_staged_config_def gpu_devices_01 example_towers)

lemma op_runs_epochs:
  "length (filter (runs_in cb) (concat (replicate epochs (replicate steps RunStep @ [Trigger]))))
     = (if runs_in cb Trigger then epochs else 0) + epochs * (if runs_in cb RunStep then steps else 0)"
  by (induction epochs) (auto simp: filter_replicate)

lemma op_runs_RunOp:
  "op_runs (RunOp opr before as_trigger v) (training_run epochs steps)
     = (if before then 1 else 0) + (if as_trigger then epochs else 0)"
  by (simp add: op_runs_def training_run_def op_runs_epochs)

lemma hd_training_run: "hd (training_run epochs steps) = BeforeTrain"
  by (simp add: training_run_def)

subsection \<open>Facts about the constructors\<close>

lemma callbacks_update_self: "\<exists>cbs. cfg = cfg\<lparr>callbacks := cbs\<rparr>"
  by (rule exI[of _ "callbacks cfg"]) simp

lemma Trainer_init_config:
  assumes "\<And>s g s' g'. class_setup s g = (Inr s', g') \<Longrightarrow> \<exists>cbs. config s' = (config s)\<lparr>callbacks := cbs\<rparr>"
  shows "\<exists>cbs. fst (snd (Trainer_init class_setup cfg self graph)) = cfg\<lparr>callbacks := cbs\<rparr>"
proof (cases "class_setup (self\<lparr>config := cfg, self_model := model cfg\<rparr>) graph")
  case (Pair r g')
  show ?thesis
  proof (cases r)
    case (Inl e)
    then show ?thesis
      using Pair callbacks_update_self[of cfg] by (simp add: Trainer_init_def)
  next
    case (Inr s')
    from assms[of "self\<lparr>config := cfg, self_model := model cfg\<rparr>" graph s' g'] Pair Inr
    obtain cbs where "config s' = cfg\<lparr>callbacks := cbs\<rparr>" by auto
    then show ?thesis using Pair Inr by (auto simp: Trainer_init_def)
  qed
qed

lemma Trainer_init_Inr:
  "Trainer_init class_setup cfg self graph = (Inr t, cfg', graph') \<longleftrightarrow>
     class_setup (self\<lparr>config := cfg, self_model := model cfg\<rparr>) graph = (Inr t, graph')
     \<and> cfg' = config t"
  by (auto simp: Trainer_init_def split: sum.splits prod.splits)

lemma ps_init_config:
  "\<exists>cbs. fst (snd (SyncMultiGPUTrainerParameterServer_init env gpu cfg ps gp graph))
     = (snd (apply_prefetch_policy gpu cfg (Some (arg_or True gp))))\<lparr>callbacks := cbs\<rparr>"
proof (cases "apply_prefetch_policy gpu cfg (Some (arg_or True gp))")
  case (Pair r cfg')
  have built: "\<exists>cbs. fst (snd (Trainer_init (SyncMultiGPUTrainerParameterServer_setup env)
      cfg' self0 graph)) = cfg'\<lparr>callbacks := cbs\<rparr>" for self0
    by (rule Trainer_init_config) (rule ps_setup_config)
  show ?thesis
    using Pair built callbacks_update_self[of cfg']
    by (cases r) (simp_all add: SyncMultiGPUTrainerParameterServer_init_def Let_def)
qed

lemma replicated_init_config:
  "\<exists>cbs. fst (snd (SyncMultiGPUTrainerReplicated_init env gpu cfg gp graph))
     = (snd (apply_prefetch_policy gpu cfg (Some (arg_or True gp))))\<lparr>callbacks := cbs\<rparr>"
proof (cases "apply_prefetch_policy gpu cfg (Some (arg_or True gp))")
  case (Pair r cfg')
  have built: "\<exists>cbs. fst (snd (Trainer_init (SyncMultiGPUTrainerReplicated_setup env)
      cfg' self0 graph)) = cfg'\<lparr>callbacks := cbs\<rparr>" for self0
    by (rule Trainer_init_config) (rule replicated_setup_config)
  show ?thesis
    using Pair built callbacks_update_self[of cfg']
    by (cases r) (simp_all add: SyncMultiGPUTrainerReplicated_init_def Let_def)
qed

lemma async_init_config:
  "\<exists>cbs. fst (snd (AsyncMultiGPUTrainer_init env gpu cfg sg graph))
     = (snd (apply_prefetch_policy gpu cfg (Some True)))\<lparr>callbacks := cbs\<rparr>"
proof (cases "apply_prefetch_policy gpu cfg (Some True)")
  case (Pair r cfg')
  have built: "\<exists>cbs. fst (snd (Trainer_init (AsyncMultiGPUTrainer_setup env)
      cfg' self0 graph)) = cfg'\<lparr>callbacks := cbs\<rparr>" for self0
    by (rule Trainer_init_config) (rule async_setup_config)
  show ?thesis
    using Pair built callbacks_update_self[of cfg']
    by (cases r) (simp_all add: AsyncMultiGPUTrainer_init_def Let_def apply_prefetch_policy_default)
qed

lemma ps_init_data:
  "data (fst (snd (SyncMultiGPUTrainerParameterServer_init env gpu cfg ps gp graph)))
     = data (snd (apply_prefetch_policy gpu cfg (Some (arg_or True gp))))"
  "dataflow (fst (snd (SyncMultiGPUTrainerParameterServer_init env gpu cfg ps gp graph)))
     = dataflow (snd (apply_prefetch_policy gpu cfg (Some (arg_or True gp))))"
  using ps_init_config[of env gpu cfg ps gp graph] by auto

lemma replicated_init_data:
  "data (fst (snd (SyncMultiGPUTrainerReplicated_init env gpu cfg gp graph)))
     = data (snd (apply_prefetch_policy gpu cfg (Some (arg_or True gp))))"
  "dataflow (fst (snd (SyncMultiGPUTrainerReplicated_init env gpu cfg gp graph)))
     = dataflow (snd (apply_prefetch_policy gpu cfg (Some (arg_or True gp))))"
  using replicated_init_config[of env gpu cfg gp graph] by auto

lemma async_init_data:
  "data (fst (snd (AsyncMultiGPUTrainer_init env gpu cfg sg graph)))
     = data (snd (apply_prefetch_policy gpu cfg (Some True)))"
  "dataflow (fst (snd (AsyncMultiGPUTrainer_init env gpu cfg sg graph)))
     = dataflow (snd (apply_prefetch_policy gpu cfg (Some True)))"
  using async_init_config[of env gpu cfg sg graph] by auto

lemma ps_init_error:
  "fst (apply_prefetch_policy gpu cfg (Some (arg_or True gp))) = Some e
   \<Longrightarrow> SyncMultiGPUTrainerParameterServer_init env gpu cfg ps gp graph
       = (Inl e, snd (apply_prefetch_policy gpu cfg (Some (arg_or True gp))), graph)"
  by (auto simp: SyncMultiGPUTrainerParameterServer_init_def Let_def split: prod.splits option.splits)

lemma replicated_init_error:
  "fst (apply_prefetch_policy gpu cfg (Some (arg_or True gp))) = Some e
   \<Longrightarrow> SyncMultiGPUTrainerReplicated_init env gpu cfg gp graph
       = (Inl e, snd (apply_prefetch_policy gpu cfg (Some (arg_or True gp))), graph)"
  by (auto simp: SyncMultiGPUTrainerReplicated_init_def Let_def split: prod.splits option.splits)

lemma async_init_error:
  "fst (apply_prefetch_policy gpu cfg (Some True)) = Some e
   \<Longrightarrow> AsyncMultiGPUTrainer_init env gpu cfg sg graph
       = (Inl e, snd (apply_prefetch_policy gpu cfg (Some True)), graph)"
  by (auto simp: AsyncMultiGPUTrainer_init_def Let_def apply_prefetch_policy_default
      split: prod.splits option.splits)

lemma ps_init_Inr:
  "SyncMultiGPUTrainerParameterServer_init env gpu cfg ps gp graph = (Inr t, cfg', graph') \<longleftrightarrow>
     (\<exists>c. apply_prefetch_policy gpu cfg (Some (arg_or True gp)) = (None, c)
        \<and> arg_or ''gpu'' ps \<in> set [''gpu'', ''cpu'']
        \<and> SyncMultiGPUTrainerParameterServer_setup env
             \<lparr>config = c, self_model = model c, train_op = None,
              input_source = data c, ps_device = arg_or ''gpu'' ps\<rparr> graph = (Inr t, graph')
        \<and> cfg' = config t)"
proof (cases "apply_prefetch_policy gpu cfg (Some (arg_or True gp))")
  case (Pair r c)
  show ?thesis
  proof (cases r)
    case None
    then show ?thesis
      using Pair
      by (simp add: SyncMultiGPUTrainerParameterServer_init_def Let_def Trainer_init_Inr)
  next
    case (Some e)
    then show ?thesis
      using Pair by (simp add: SyncMultiGPUTrainerParameterServer_init_def Let_def)
  qed
qed

lemma SyncMultiGPUTrainer_unfold:
  "SyncMultiGPUTrainer env gpu cfg graph
     = SyncMultiGPUTrainerParameterServer_init env gpu cfg (Some ''gpu'') (Some True) graph"
  unfolding SyncMultiGPUTrainer_def SyncMultiGPUTrainerParameterServer_init_def arg_or_def
  by simp

lemma ps_gpu_built:
  assumes ok: "SyncMultiGPUTrainerParameterServer_init env gpu cfg (Some ''gpu'') (Some True) graph
                 = (Inr t, cfg', graph')"
  shows "ps_device t = ''gpu''
        \<and> input_source t = data (snd (apply_prefetch_policy gpu cfg (Some True)))
        \<and> cfg' = config t
        \<and> (\<exists>inp m cbs opr.
              input_source t = Some inp \<and> model cfg = Some m
            \<and> input_setup env inp (get_inputs_desc env m) = Inr cbs
            \<and> ps_build env (tower cfg) ''gpu'' inp m graph = (Inr opr, graph')
            \<and> train_op t = Some opr
            \<and> callbacks (config t) = callbacks cfg @ cbs)"
proof -
  have args: "arg_or True (Some True) = True" "arg_or ''gpu'' (Some ''gpu'') = ''gpu''"
    by (simp_all add: arg_or_def)
  from ok[unfolded ps_init_Inr args] obtain c where
    pol: "apply_prefetch_policy gpu cfg (Some True) = (None, c)" and
    run: "SyncMultiGPUTrainerParameterServer_setup env
           \<lparr>config = c, self_model = model c, train_op = None,
            input_source = data c, ps_device = ''gpu''\<rparr> graph = (Inr t, graph')" and
    cfg': "cfg' = config t"
    by blast
  have c: "model c = model cfg" "tower c = tower cfg" "callbacks c = callbacks cfg"
    using pol apply_prefetch_policy_fields[of gpu cfg "Some True"]
      apply_prefetch_policy_callbacks[of gpu cfg "Some True"] by simp_all
  from run[unfolded ps_setup_Inr] obtain inp m cbs opr where
    inp: "setup_input env \<lparr>config = c, self_model = model c, train_op = None,
             input_source = data c, ps_device = ''gpu''\<rparr> = Inr (inp, m, cbs)" and
    opr: "ps_build env (tower (config \<lparr>config = c, self_model = model c, train_op = None,
             input_source = data c, ps_device = ''gpu''\<rparr>))
           (ps_device \<lparr>config = c, self_model = model c, train_op = None,
             input_source = data c, ps_device = ''gpu''\<rparr>) inp m graph = (Inr opr, graph')" and
    t: "t = extend_callbacks cbs
           (\<lparr>config = c, self_model = model c, train_op = None,
             input_source = data c, ps_device = ''gpu''\<rparr>\<lparr>train_op := Some opr\<rparr>)"
    by blast
  from inp have src: "data c = Some inp" "model c = Some m"
    "input_setup env inp (get_inputs_desc env m) = Inr cbs"
    by (simp_all add: setup_input_Inr)
  have fields: "ps_device t = ''gpu''" "input_source t = Some inp" "train_op t = Some opr"
    "callbacks (config t) = callbacks cfg @ cbs"
    using src c by (simp_all add: t extend_callbacks_def)
  have build: "ps_build env (tower cfg) ''gpu'' inp m graph = (Inr opr, graph')"
    using opr c by simp
  have m: "model cfg = Some m" using src c by simp
  have d: "data (snd (apply_prefetch_policy gpu cfg (Some True))) = Some inp"
    using pol src by simp
  show ?thesis
    using fields build m d cfg' src(3) by simp
qed

lemma example_ps_init:
  "SyncMultiGPUTrainerParameterServer_init example_env True example_config (Some ''gpu'') (Some True) []
     = (Inr example_ps_after, config example_ps_after, example_shared_towers)"
proof -
  have "\<lparr>config = example_staged_config, self_model = None, train_op = None,
          input_source = data example_staged_config, ps_device = ''gpu''\<rparr>
          \<lparr>config := example_staged_config, self_model := model example_staged_config\<rparr>
        = example_ps_trainer"
    by (simp add: example_ps_trainer_def example_staged_config_def)
  then show ?thesis
    by (simp add: SyncMultiGPUTrainerParameterServer_init_def arg_or_def example_config_policy
        Trainer_init_def example_ps_setup)
qed

subsection \<open>Construction\<close>

text \<open>
  C1. Constructing \<^verbatim>\<open>SyncMultiGPUTrainerParameterServer\<close> with a \<^verbatim>\<open>ps_device\<close> that is neither
  \<^verbatim>\<open>'gpu'\<close> nor \<^verbatim>\<open>'cpu'\<close> (such as \<^verbatim>\<open>'tpu'\<close>) fails with an assertion error, whatever the
  configuration, the other arguments and the collaborators are. The failure comes before
  the base constructor and its \<^verbatim>\<open>_setup\<close>: the graph is returned as it was given, so no tower
  replica has been built; the configuration is as the prefetch policy left it, with its
  callback list as on entry, so no callback has been registered.
\<close>

theorem unsupported_ps_device_fails:
  assumes "ps \<noteq> ''gpu''" and "ps \<noteq> ''cpu''"
  shows "SyncMultiGPUTrainerParameterServer_init env gpu cfg (Some ps) gp graph
           = (Inl AssertionError, snd (apply_prefetch_policy gpu cfg (Some (arg_or True gp))), graph)
       \<and> callbacks (snd (apply_prefetch_policy gpu cfg (Some (arg_or True gp)))) = callbacks cfg"
proof (cases "apply_prefetch_policy gpu cfg (Some (arg_or True gp))")
  case (Pair r cfg')
  show ?thesis
  proof (cases r)
    case None
    then show ?thesis
      using Pair assms apply_prefetch_policy_callbacks[of gpu cfg "Some (arg_or True gp)"]
      by (simp add: SyncMultiGPUTrainerParameterServer_init_def arg_or_def)
  next
    case (Some e)
    then have "e = AssertionError"
      using Pair apply_prefetch_policy_error[of gpu cfg "Some (arg_or True gp)" e] by simp
    then show ?thesis
      using Pair Some apply_prefetch_policy_callbacks[of gpu cfg "Some (arg_or True gp)"]
      by (simp add: SyncMultiGPUTrainerParameterServer_init_def)
  qed
qed

theorem unsupported_ps_device_fails_witness:
  "''tpu'' \<noteq> ''gpu'' \<and> ''tpu'' \<noteq> ''cpu''
   \<and> SyncMultiGPUTrainerParameterServer_init example_env True example_config (Some ''tpu'') None []
       = (Inl AssertionError, example_staged_config, [])
   \<and> callbacks example_staged_config = callbacks example_config"
  using unsupported_ps_device_fails[of "''tpu''" example_env True example_config None "[]"]
  by (simp add: arg_or_def example_config_policy)

text \<open>
  C5. A configuration without a model, or with neither \<^verbatim>\<open>data\<close> nor \<^verbatim>\<open>dataflow\<close>, makes each of
  the three constructors fail with an assertion error. The failure is the first statement
  of the constructor: the configuration and the graph are left as they were and no
  trainer is returned.
\<close>

theorem missing_required_field_fails:
  assumes "model cfg = None \<or> (data cfg = None \<and> dataflow cfg = None)"
  shows "SyncMultiGPUTrainerParameterServer_init env gpu cfg ps gp graph = (Inl AssertionError, cfg, graph)
       \<and> SyncMultiGPUTrainerReplicated_init env gpu cfg gp graph = (Inl AssertionError, cfg, graph)
       \<and> AsyncMultiGPUTrainer_init env gpu cfg sg graph = (Inl AssertionError, cfg, graph)"
  using apply_prefetch_policy_rejects[OF assms]
  by (simp add: SyncMultiGPUTrainerParameterServer_init_def
      SyncMultiGPUTrainerReplicated_init_def AsyncMultiGPUTrainer_init_def)

theorem missing_required_field_fails_witness:
  "(model no_model_config = None \<or> (data no_model_config = None \<and> dataflow no_model_config = None))
   \<and> SyncMultiGPUTrainerParameterServer_init example_env True no_model_config None None []
       = (Inl AssertionError, no_model_config, [])
   \<and> SyncMultiGPUTrainerReplicated_init example_env True no_model_config None []
       = (Inl AssertionError, no_model_config, [])
   \<and> AsyncMultiGPUTrainer_init example_env True no_model_config None []
       = (Inl AssertionError, no_model_config, [])"
  using missing_required_field_fails[of no_model_config example_env True None None "[]" None]
  by (simp add: no_model_config_def)

subsection \<open>The input source after construction\<close>

text \<open>
  C3 does not hold as stated: the asynchronous trainer has no \<^verbatim>\<open>gpu_prefetch\<close> setting. On
  a configuration with two towers and an available GPU it wraps the input source in a
  staging wrapper for every value of its only optional argument.
\<close>

theorem async_always_prefetches:
  "data (fst (snd (AsyncMultiGPUTrainer_init example_env True example_config None [])))
     = Some example_source
   \<and> data (fst (snd (AsyncMultiGPUTrainer_init example_env True example_config (Some True) [])))
     = Some example_source
   \<and> data (fst (snd (AsyncMultiGPUTrainer_init example_env True example_config (Some False) [])))
     = Some example_source
   \<and> data (normalize example_config) = Some (QueueInput (DataFlow ''df''))
   \<and> 1 < length (tower example_config)"
  by (simp add: async_init_data example_config_policy)
     (simp add: example_staged_config_def example_config_def normalize_def)

text \<open>
  C3, amended. \<^verbatim>\<open>gpu_prefetch\<close> is an argument of the parameter-server and replicated
  constructors (default true); the asynchronous constructor always applies the policy
  with \<^verbatim>\<open>gpu_prefetch\<close> true. For a configuration that passes the required-field check,
  with \<open>d\<close> the input source after normalization and \<open>p\<close> the value of \<^verbatim>\<open>gpu_prefetch\<close> in force:
  \<^item> more than one tower, \<open>p\<close> true, no GPU available: construction fails with an
    assertion error and \<^verbatim>\<open>config.data\<close> is \<open>d\<close>;
  \<^item> more than one tower, \<open>p\<close> true, a GPU available, and \<open>d\<close> already a
    \<^verbatim>\<open>StagingInputWrapper\<close> or a \<^verbatim>\<open>DummyConstantInput\<close>: \<^verbatim>\<open>config.data\<close> is \<open>d\<close>, kept as it is;
  \<^item> more than one tower, \<open>p\<close> true, a GPU available, and \<open>d\<close> any other source that
    needs no feeding: \<^verbatim>\<open>config.data\<close> becomes \<open>d\<close> wrapped in a \<^verbatim>\<open>StagingInputWrapper\<close> over the
    devices \<^verbatim>\<open>/gpu:k\<close>;
  \<^item> more than one tower, \<open>p\<close> true, a GPU available, and \<open>d\<close> a source that feeds: the
    staging wrapper refuses it, construction fails with an assertion error and
    \<^verbatim>\<open>config.data\<close> is \<open>d\<close>, not wrapped;
  \<^item> at most one tower, or \<open>p\<close> false: \<^verbatim>\<open>config.data\<close> is \<open>d\<close>, no wrapper is inserted.
  In the statement, \<open>failed\<close> says that the constructor ended with an assertion error and
  \<open>source\<close> is \<^verbatim>\<open>config.data\<close> after the constructor.
\<close>

theorem gpu_prefetch_policy:
  assumes "data cfg \<noteq> None \<or> dataflow cfg \<noteq> None" and "model cfg \<noteq> None"
  shows "\<exists>d. data (normalize cfg) = Some d \<and>
     (let n = length (tower cfg);
          devices = gpu_devices (tower cfg);
          ps_result = SyncMultiGPUTrainerParameterServer_init env gpu cfg ps gp graph;
          rep_result = SyncMultiGPUTrainerReplicated_init env gpu cfg gp graph;
          async_result = AsyncMultiGPUTrainer_init env gpu cfg sg graph;
          policy = (\<lambda>p (failed, source).
              (1 < n \<and> p \<and> \<not> gpu \<longrightarrow> failed \<and> source = Some d)
            \<and> (1 < n \<and> p \<and> gpu \<and> isinstance_Staging_or_Dummy d \<longrightarrow> source = Some d)
            \<and> (1 < n \<and> p \<and> gpu \<and> \<not> isinstance_Staging_or_Dummy d \<and> isinstance_FeedfreeInput d \<longrightarrow>
                 source = Some (StagingInputWrapper d devices))
            \<and> (1 < n \<and> p \<and> gpu \<and> \<not> isinstance_Staging_or_Dummy d \<and> \<not> isinstance_FeedfreeInput d \<longrightarrow>
                 failed \<and> source = Some d)
            \<and> (n \<le> 1 \<or> \<not> p \<longrightarrow> source = Some d))
      in policy (arg_or True gp) (fst ps_result = Inl AssertionError, data (fst (snd ps_result)))
       \<and> policy (arg_or True gp) (fst rep_result = Inl AssertionError, data (fst (snd rep_result)))
       \<and> policy True (fst async_result = Inl AssertionError, data (fst (snd async_result))))"
proof -
  from assms(1) obtain d where d: "data (normalize cfg) = Some d"
    using normalize_data_set by blast
  note sync = apply_prefetch_policy_outcome[OF assms d, of "arg_or True gp" gpu]
  note async = apply_prefetch_policy_outcome[OF assms d, of True gpu]
  have ps_fail: "fst (apply_prefetch_policy gpu cfg (Some (arg_or True gp))) = Some AssertionError
      \<Longrightarrow> fst (SyncMultiGPUTrainerParameterServer_init env gpu cfg ps gp graph) = Inl AssertionError"
    using ps_init_error[of gpu cfg gp AssertionError env ps graph] by simp
  have rep_fail: "fst (apply_prefetch_policy gpu cfg (Some (arg_or True gp))) = Some AssertionError
      \<Longrightarrow> fst (SyncMultiGPUTrainerReplicated_init env gpu cfg gp graph) = Inl AssertionError"
    using replicated_init_error[of gpu cfg gp AssertionError env graph] by simp
  have async_fail: "fst (apply_prefetch_policy gpu cfg (Some True)) = Some AssertionError
      \<Longrightarrow> fst (AsyncMultiGPUTrainer_init env gpu cfg sg graph) = Inl AssertionError"
    using async_init_error[of gpu cfg AssertionError env sg graph] by simp
  have ps: "(1 < length (tower cfg) \<and> arg_or True gp \<and> \<not> gpu \<longrightarrow>
            fst (SyncMultiGPUTrainerParameterServer_init env gpu cfg ps gp graph) = Inl AssertionError)
       \<and> (1 < length (tower cfg) \<and> arg_or True gp \<and> gpu \<and> \<not> isinstance_Staging_or_Dummy d
            \<and> \<not> isinstance_FeedfreeInput d \<longrightarrow>
            fst (SyncMultiGPUTrainerParameterServer_init env gpu cfg ps gp graph) = Inl AssertionError)"
    using sync ps_fail by blast
  have rep: "(1 < length (tower cfg) \<and> arg_or True gp \<and> \<not> gpu \<longrightarrow>
            fst (SyncMultiGPUTrainerReplicated_init env gpu cfg gp graph) = Inl AssertionError)
       \<and> (1 < length (tower cfg) \<and> arg_or True gp \<and> gpu \<and> \<not> isinstance_Staging_or_Dummy d
            \<and> \<not> isinstance_FeedfreeInput d \<longrightarrow>
            fst (SyncMultiGPUTrainerReplicated_init env gpu cfg gp graph) = Inl AssertionError)"
    using sync rep_fail by blast
  have asy: "(1 < length (tower cfg) \<and> \<not> gpu \<longrightarrow>
            fst (AsyncMultiGPUTrainer_init env gpu cfg sg graph) = Inl AssertionError)
       \<and> (1 < length (tower cfg) \<and> gpu \<and> \<not> isinstance_Staging_or_Dummy d
            \<and> \<not> isinstance_FeedfreeInput d \<longrightarrow>
            fst (AsyncMultiGPUTrainer_init env gpu cfg sg graph) = Inl AssertionError)"
    using async async_fail by blast
  show ?thesis
    apply (rule exI[of _ d])
    apply (simp only: Let_def ps_init_data replicated_init_data async_init_data d split_conv)
    using sync async ps rep asy by auto
qed

theorem gpu_prefetch_policy_witness:
  "fst (SyncMultiGPUTrainerParameterServer_init example_env False example_config None None [])
     = Inl AssertionError
   \<and> fst (AsyncMultiGPUTrainer_init example_env False example_config None []) = Inl AssertionError
   \<and> data (fst (snd (SyncMultiGPUTrainerReplicated_init example_env True example_config (Some True) [])))
     = Some example_source
   \<and> data (fst (snd (AsyncMultiGPUTrainer_init example_env True example_config (Some False) [])))
     = Some example_source
   \<and> data (fst (snd (SyncMultiGPUTrainerReplicated_init example_env True example_config (Some False) [])))
     = Some (QueueInput (DataFlow ''df''))
   \<and> data (fst (snd (AsyncMultiGPUTrainer_init example_env True single_tower_config None [])))
     = Some (FeedInput ''feed'')
   \<and> fst (SyncMultiGPUTrainerReplicated_init example_env True feed_config None []) = Inl AssertionError
   \<and> data (fst (snd (SyncMultiGPUTrainerReplicated_init example_env True feed_config None [])))
     = Some (FeedInput ''feed'')
   \<and> data (fst (snd (AsyncMultiGPUTrainer_init example_env True example_staged_config None [])))
     = Some example_source"
  using gpu_prefetch_policy[of example_config example_env False None None "[]" None]
    gpu_prefetch_policy[of example_config example_env True None "Some True" "[]" "Some False"]
    gpu_prefetch_policy[of example_config example_env True None "Some False" "[]" None]
    gpu_prefetch_policy[of single_tower_config example_env True None None "[]" None]
    gpu_prefetch_policy[of feed_config example_env True None None "[]" None]
    gpu_prefetch_policy[of example_staged_config example_env True None None "[]" None]
  by (simp add: example_config_def single_tower_config_def feed_config_def example_staged_config_def
      example_source_def normalize_def arg_or_def gpu_devices_01 Let_def)

text \<open>
  C4 does not hold as stated: a configuration with both \<^verbatim>\<open>data\<close> and \<^verbatim>\<open>dataflow\<close> set passes
  the required-field check, and the normalization leaves both set.
\<close>

theorem both_sources_stay_set:
  "data both_sources_config = Some (FeedInput ''feed'')
   \<and> dataflow both_sources_config = Some (DataFlow ''df'')
   \<and> model both_sources_config = Some (ModelDesc ''net'')
   \<and> fst (apply_prefetch_policy True both_sources_config None) = None
   \<and> data (snd (apply_prefetch_policy True both_sources_config None)) = Some (FeedInput ''feed'')
   \<and> dataflow (snd (apply_prefetch_policy True both_sources_config None)) = Some (DataFlow ''df'')"
  by (simp add: apply_prefetch_policy_def both_sources_config_def normalize_def arg_or_def)

text \<open>
  C4, amended. After the normalization, in \<^verbatim>\<open>apply_prefetch_policy\<close> and so in each of the
  three constructors, \<^verbatim>\<open>config.data\<close> is set for every configuration that passes the
  required-field check, whether or not the call then fails for want of a GPU.
  \<^verbatim>\<open>config.dataflow\<close> is cleared when \<^verbatim>\<open>config.data\<close> was not set on entry and is left as
  given otherwise. So exactly one of the two is set afterwards unless both were set on
  entry.
\<close>

theorem normalization_sets_data:
  assumes "data cfg \<noteq> None \<or> dataflow cfg \<noteq> None" and "model cfg \<noteq> None"
  shows "\<forall>cfg' \<in> {snd (apply_prefetch_policy gpu cfg p),
                   fst (snd (SyncMultiGPUTrainerParameterServer_init env gpu cfg ps gp graph)),
                   fst (snd (SyncMultiGPUTrainerReplicated_init env gpu cfg gp graph)),
                   fst (snd (AsyncMultiGPUTrainer_init env gpu cfg sg graph))}.
           data cfg' \<noteq> None
         \<and> dataflow cfg' = (if data cfg = None then None else dataflow cfg)
         \<and> (data cfg = None \<or> dataflow cfg = None \<longrightarrow> dataflow cfg' = None)"
proof -
  from assms(1) obtain d where d: "data (normalize cfg) = Some d"
    using normalize_data_set by blast
  have "data (snd (apply_prefetch_policy gpu cfg q)) \<noteq> None
      \<and> dataflow (snd (apply_prefetch_policy gpu cfg q)) = (if data cfg = None then None else dataflow cfg)" for q
    using apply_prefetch_policy_result[OF assms d, of gpu q] d
    by (auto simp: normalize_dataflow)
  then show ?thesis
    by (auto simp: ps_init_data replicated_init_data async_init_data)
qed

theorem normalization_sets_data_witness:
  "data (snd (apply_prefetch_policy True example_config None)) \<noteq> None
   \<and> dataflow (fst (snd (SyncMultiGPUTrainerParameterServer_init example_env True example_config None None [])))
       = None
   \<and> dataflow (fst (snd (AsyncMultiGPUTrainer_init example_env True both_sources_config None [])))
       = Some (DataFlow ''df'')"
  using normalization_sets_data[of example_config True None example_env None None "[]" None]
     normalization_sets_data[of both_sources_config True None example_env None None "[]" None]
  by (simp add: example_config_def both_sources_config_def)

text \<open>
  C10. \<^verbatim>\<open>apply_prefetch_policy\<close> is idempotent on every configuration that passes its
  required-field check: a second call with the same \<^verbatim>\<open>gpu_prefetch\<close> and the same GPU
  availability has the outcome of the first and leaves the whole configuration, and so
  \<^verbatim>\<open>config.data\<close> and \<^verbatim>\<open>config.dataflow\<close>, as the first call left it.
\<close>

theorem apply_prefetch_policy_idempotent:
  assumes "data cfg \<noteq> None \<or> dataflow cfg \<noteq> None" and "model cfg \<noteq> None"
  shows "apply_prefetch_policy gpu (snd (apply_prefetch_policy gpu cfg p)) p
           = apply_prefetch_policy gpu cfg p"
proof -
  from assms(1) obtain d where d: "data (normalize cfg) = Some d"
    using normalize_data_set by blast
  show ?thesis
    using d assms
    by (cases "isinstance_Staging_or_Dummy d"; cases "isinstance_FeedfreeInput d")
       (auto simp: apply_prefetch_policy_def Let_def normalize_idem normalize_def
          StagingInputWrapper_init_def split: option.splits)
qed

theorem apply_prefetch_policy_idempotent_witness:
  "apply_prefetch_policy True example_staged_config (Some True)
     = (None, example_staged_config)"
  using apply_prefetch_policy_idempotent[of example_config True "Some True"]
  by (simp add: example_config_policy) (simp add: example_config_def)

subsection \<open>Setup\<close>

text \<open>
  C7. When \<^verbatim>\<open>_setup\<close> of a trainer completes, the trainer's \<^verbatim>\<open>train_op\<close> is the one operation
  that its builder returned for the trainer's towers, input source and model: the result
  of \<^verbatim>\<open>build\<close> for the parameter-server and asynchronous trainers, the first component of
  that result for the replicated trainer. The graph is as that builder left it.
\<close>

theorem setup_stores_train_op:
  "(SyncMultiGPUTrainerParameterServer_setup env ps_self graph = (Inr ps_self', graph') \<longrightarrow>
      (\<exists>inp m opr. input_source ps_self = Some inp \<and> self_model ps_self = Some m
         \<and> ps_build env (tower (config ps_self)) (ps_device ps_self) inp m graph = (Inr opr, graph')
         \<and> train_op ps_self' = Some opr))
   \<and> (SyncMultiGPUTrainerReplicated_setup env rep_self graph = (Inr rep_self', graph') \<longrightarrow>
      (\<exists>inp m opr post_init_op. input_source rep_self = Some inp \<and> self_model rep_self = Some m
         \<and> replicated_build env (tower (config rep_self)) inp m graph
             = (Inr (opr, post_init_op), graph')
         \<and> train_op rep_self' = Some opr))
   \<and> (AsyncMultiGPUTrainer_setup env async_self graph = (Inr async_self', graph') \<longrightarrow>
      (\<exists>inp m opr. input_source async_self = Some inp \<and> self_model async_self = Some m
         \<and> async_build env (tower (config async_self)) (scale_gradient async_self) inp m graph
             = (Inr opr, graph')
         \<and> train_op async_self' = Some opr))"
  by (auto simp: SyncMultiGPUTrainerParameterServer_setup_def
      SyncMultiGPUTrainerReplicated_setup_def AsyncMultiGPUTrainer_setup_def
      setup_input_Inr Let_def split: sum.splits prod.splits)

theorem setup_stores_train_op_witness:
  "SyncMultiGPUTrainerParameterServer_setup example_env example_ps_trainer []
     = (Inr example_ps_after, example_shared_towers)
   \<and> train_op example_ps_after = Some (Op ''ps-train'')
   \<and> SyncMultiGPUTrainerReplicated_setup example_env example_replicated_trainer []
     = (Inr example_replicated_after, example_own_towers)
   \<and> train_op example_replicated_after = Some (Op ''replicated-train'')
   \<and> AsyncMultiGPUTrainer_setup example_env example_async_trainer []
     = (Inr example_async_after, example_shared_towers)
   \<and> train_op example_async_after = Some (Op ''async-train'')"
  using setup_stores_train_op[of example_env example_ps_trainer "[]" example_ps_after
      example_shared_towers example_replicated_trainer example_replicated_after
      example_async_trainer example_async_after]
  by (simp add: example_ps_setup example_replicated_setup example_async_setup)
     (simp add: example_ps_after_def example_replicated_after_def example_async_after_def)

text \<open>
  C8. When \<^verbatim>\<open>_setup\<close> of a trainer completes, the configuration differs from the one before
  only in its callback list, which is the list before followed by the callbacks that the
  input source's \<^verbatim>\<open>setup\<close> returned and, for the replicated trainer only, by one \<^verbatim>\<open>RunOp\<close> of
  the post-initialization operation. The entries that were in the list stay, in order.
\<close>

theorem setup_extends_callbacks:
  "(SyncMultiGPUTrainerParameterServer_setup env ps_self graph = (Inr ps_self', graph') \<longrightarrow>
      (\<exists>inp m cbs. input_source ps_self = Some inp \<and> self_model ps_self = Some m
         \<and> input_setup env inp (get_inputs_desc env m) = Inr cbs
         \<and> config ps_self' = (config ps_self)\<lparr>callbacks := callbacks (config ps_self) @ cbs\<rparr>))
   \<and> (SyncMultiGPUTrainerReplicated_setup env rep_self graph = (Inr rep_self', graph') \<longrightarrow>
      (\<exists>inp m cbs opr post_init_op. input_source rep_self = Some inp \<and> self_model rep_self = Some m
         \<and> input_setup env inp (get_inputs_desc env m) = Inr cbs
         \<and> replicated_build env (tower (config rep_self)) inp m graph
             = (Inr (opr, post_init_op), graph')
         \<and> config rep_self' = (config rep_self)\<lparr>callbacks :=
               callbacks (config rep_self) @ cbs @ [RunOp post_init_op True True True]\<rparr>))
   \<and> (AsyncMultiGPUTrainer_setup env async_self graph = (Inr async_self', graph') \<longrightarrow>
      (\<exists>inp m cbs. input_source async_self = Some inp \<and> self_model async_self = Some m
         \<and> input_setup env inp (get_inputs_desc env m) = Inr cbs
         \<and> config async_self' = (config async_self)\<lparr>callbacks := callbacks (config async_self) @ cbs\<rparr>))"
  by (auto simp: SyncMultiGPUTrainerParameterServer_setup_def
      SyncMultiGPUTrainerReplicated_setup_def AsyncMultiGPUTrainer_setup_def
      setup_input_Inr Let_def split: sum.splits prod.splits)

theorem setup_extends_callbacks_witness:
  "SyncMultiGPUTrainerParameterServer_setup example_env example_ps_trainer []
     = (Inr example_ps_after, example_shared_towers)
   \<and> callbacks (config example_ps_trainer) = [OtherCallback ''user'']
   \<and> callbacks (config example_ps_after) = [OtherCallback ''user'', OtherCallback ''start-queue'']
   \<and> SyncMultiGPUTrainerReplicated_setup example_env example_replicated_trainer []
     = (Inr example_replicated_after, example_own_towers)
   \<and> callbacks (config example_replicated_after)
     = [OtherCallback ''user'', OtherCallback ''start-queue'',
        RunOp (Op ''sync-copies'') True True True]
   \<and> AsyncMultiGPUTrainer_setup example_env example_async_trainer []
     = (Inr example_async_after, example_shared_towers)
   \<and> callbacks (config example_async_after) = [OtherCallback ''user'', OtherCallback ''start-queue'']"
  using setup_extends_callbacks[of example_env example_ps_trainer "[]" example_ps_after
      example_shared_towers example_replicated_trainer example_replicated_after
      example_async_trainer example_async_after]
  by (simp add: example_ps_setup example_replicated_setup example_async_setup)
     (simp add: example_ps_after_def example_replicated_after_def example_async_after_def
        example_ps_trainer_def example_staged_config_def)

text \<open>
  C2 does not hold as stated: the hook is registered with \<^verbatim>\<open>run_as_trigger=True\<close>, so the
  post-initialization operation runs again at every trigger. In a training run of two
  epochs of one step it runs three times, not once.
\<close>

theorem post_init_sync_runs_at_every_trigger:
  "SyncMultiGPUTrainerReplicated_setup example_env example_replicated_trainer []
     = (Inr example_replicated_after, example_own_towers)
   \<and> last (callbacks (config example_replicated_after))
     = RunOp (Op ''sync-copies'') True True True
   \<and> training_run 2 1 = [BeforeTrain, RunStep, Trigger, RunStep, Trigger]
   \<and> op_runs (RunOp (Op ''sync-copies'') True True True) (training_run 2 1) = 3"
  by (simp add: example_replicated_setup op_runs_RunOp)
     (simp add: example_replicated_after_def training_run_def numeral_2_eq_2)

text \<open>
  C2, amended. When \<^verbatim>\<open>_setup\<close> of the replicated trainer completes, the last entry of the
  callback list is \<^verbatim>\<open>RunOp\<close> of the builder's post-initialization operation with
  \<^verbatim>\<open>run_before\<close>, \<^verbatim>\<open>run_as_trigger\<close> and \<^verbatim>\<open>verbose\<close> all true. It is verbose; it runs in the phase
  before training, which precedes every step; and it runs at every trigger as well, so
  over a training run of \<open>epochs\<close> epochs it runs \<open>1 + epochs\<close> times.
\<close>

theorem post_init_sync_hook:
  assumes "SyncMultiGPUTrainerReplicated_setup env self graph = (Inr self', graph')"
  shows "\<exists>inp m opr post_init_op.
           input_source self = Some inp \<and> self_model self = Some m
         \<and> replicated_build env (tower (config self)) inp m graph = (Inr (opr, post_init_op), graph')
         \<and> callbacks (config self') \<noteq> []
         \<and> last (callbacks (config self')) = RunOp post_init_op True True True
         \<and> verbose (last (callbacks (config self')))
         \<and> (\<forall>epochs steps.
               hd (training_run epochs steps) = BeforeTrain
             \<and> runs_in (last (callbacks (config self'))) (hd (training_run epochs steps))
             \<and> op_runs (last (callbacks (config self'))) (training_run epochs steps) = 1 + epochs)"
  using assms
  by (auto simp: SyncMultiGPUTrainerReplicated_setup_def setup_input_Inr Let_def op_runs_RunOp
      hd_training_run split: sum.splits prod.splits)

theorem post_init_sync_hook_witness:
  "SyncMultiGPUTrainerReplicated_setup example_env example_replicated_trainer []
     = (Inr example_replicated_after, example_own_towers)
   \<and> last (callbacks (config example_replicated_after)) = RunOp (Op ''sync-copies'') True True True"
  using post_init_sync_hook[of example_env example_replicated_trainer "[]"
      example_replicated_after example_own_towers]
  by (simp add: example_replicated_setup) (simp add: example_replicated_after_def)

subsection \<open>The alias\<close>

text \<open>
  C9. \<^verbatim>\<open>SyncMultiGPUTrainer(config)\<close> is
  \<^verbatim>\<open>SyncMultiGPUTrainerParameterServer(config, ps_device='gpu', gpu_prefetch=True)\<close>: for every
  configuration, GPU availability, collaborators and graph the two calls return the same
  trainer or the same error and leave the configuration and the graph in the same state.
  When they return a trainer, its \<^verbatim>\<open>ps_device\<close> is \<^verbatim>\<open>'gpu'\<close>; its input source is
  \<^verbatim>\<open>config.data\<close> as the prefetch policy with \<^verbatim>\<open>gpu_prefetch\<close> true leaves it; its \<^verbatim>\<open>train_op\<close> is
  the operation that the parameter-server builder returned for the configuration's
  towers, the device \<^verbatim>\<open>'gpu'\<close>, that input source and the configuration's model; and the
  callback list is the one on entry followed by the callbacks of that input source's
  \<^verbatim>\<open>setup\<close>.
\<close>

theorem SyncMultiGPUTrainer_is_parameter_server:
  "SyncMultiGPUTrainer env gpu cfg graph
     = SyncMultiGPUTrainerParameterServer_init env gpu cfg (Some ''gpu'') (Some True) graph
   \<and> (\<forall>t cfg' graph'. SyncMultiGPUTrainer env gpu cfg graph = (Inr t, cfg', graph') \<longrightarrow>
          ps_device t = ''gpu''
        \<and> input_source t = data (snd (apply_prefetch_policy gpu cfg (Some True)))
        \<and> cfg' = config t
        \<and> (\<exists>inp m cbs opr.
              input_source t = Some inp \<and> model cfg = Some m
            \<and> input_setup env inp (get_inputs_desc env m) = Inr cbs
            \<and> ps_build env (tower cfg) ''gpu'' inp m graph = (Inr opr, graph')
            \<and> train_op t = Some opr
            \<and> callbacks (config t) = callbacks cfg @ cbs))"
proof -
  have same: "SyncMultiGPUTrainer env gpu cfg graph
     = SyncMultiGPUTrainerParameterServer_init env gpu cfg (Some ''gpu'') (Some True) graph"
    by (rule SyncMultiGPUTrainer_unfold)
  show ?thesis
    unfolding same
    by (rule conjI, rule refl, intro allI impI, erule ps_gpu_built)
qed

theorem SyncMultiGPUTrainer_is_parameter_server_witness:
  "SyncMultiGPUTrainer example_env True example_config []
     = (Inr example_ps_after, config example_ps_after, example_shared_towers)
   \<and> ps_device example_ps_after = ''gpu''
   \<and> input_source example_ps_after = Some example_source
   \<and> train_op example_ps_after = Some (Op ''ps-train'')
   \<and> callbacks (config example_ps_after) = [OtherCallback ''user'', OtherCallback ''start-queue'']"
proof -
  have "SyncMultiGPUTrainer example_env True example_config []
     = SyncMultiGPUTrainerParameterServer_init example_env True example_config
         (Some ''gpu'') (Some True) []"
    using SyncMultiGPUTrainer_is_parameter_server[of example_env True example_config "[]"]
    by (rule conjunct1)
  then have "SyncMultiGPUTrainer example_env True example_config []
     = (Inr example_ps_after, config example_ps_after, example_shared_towers)"
    unfolding example_ps_init .
  then show ?thesis
    by (simp add: example_ps_after_def)
qed

subsection \<open>Towers and devices\<close>

text \<open>
  C6. Given an explicit device list whose length is not the number of towers,
  \<^verbatim>\<open>build_on_multi_tower\<close>, which hands its arguments to \<^verbatim>\<open>build_on_towers\<close>, fails with an
  assertion error and leaves the graph as it was: no replica is built.
\<close>

theorem device_count_mismatch_fails:
  assumes "length devs \<noteq> length towers"
  shows "build_on_multi_tower towers func (Some devs) use_vs graph = (Inl AssertionError, graph)"
  using assms by (simp add: build_on_multi_tower_def build_on_towers_def)

theorem device_count_mismatch_fails_witness:
  "length [''/gpu:0''] \<noteq> length [0, 1 :: int]
   \<and> build_on_multi_tower [0, 1] (\<lambda>r. Inr (replica_index r)) (Some [''/gpu:0'']) None []
       = (Inl AssertionError, [])"
  using device_count_mismatch_fails[of "[''/gpu:0'']" "[0, 1]" "\<lambda>r. Inr (replica_index r)" None "[]"]
  by simp

text \<open>With a device for each tower the same call builds one replica per tower.\<close>

lemma matching_devices_build:
  "build_on_multi_tower [0, 1] (\<lambda>r. Inr (replica_index r)) (Some [''/gpu:0'', ''/gpu:1'']) None []
     = (Inr [0, 1], example_shared_towers)"
  by (simp add: build_on_multi_tower_def build_on_towers_def tower_replicas_def arg_or_def
      example_shared_towers_def)

end
